theory Spec2Isabelle
  imports Complex_Main "HOL-Library.Multiset"
begin

section \<open>Arrays, labels and errors\<close>

text \<open>
  The notebook \<^verbatim>\<open>solution/solution.ipynb\<close> works on NumPy arrays. A label array is a
  one-dimensional integer array, modelled as an \<open>int list\<close>. An image array has shape
  \<open>(n, H, W)\<close>: it is modelled as the list of its \<open>n\<close> images together with the
  trailing dimensions \<open>(H, W)\<close>, which NumPy keeps even when \<open>n = 0\<close>. A pixel is an
  unsigned byte, modelled as a natural number.
\<close>

datatype error = IndexError | ValueError | ZeroDivisionError

type_synonym image = "nat list list"

record image_array =
  trailing :: "nat \<times> nat"
  imgs :: "image list"

definition array_len :: "image_array \<Rightarrow> nat" where
  \<comment> \<open>\<^verbatim>\<open>len(images)\<close>: the size of the first axis.\<close>
  "array_len a = length (imgs a)"

definition take_indices :: "'a list \<Rightarrow> nat list \<Rightarrow> error + 'a list" where
  \<comment> \<open>\<^verbatim>\<open>a[indices]\<close> with an array of non-negative indices: IndexError when one of them
      is out of range.\<close>
  "take_indices a indices =
     (if \<forall>i \<in> set indices. i < length a then Inr (map (\<lambda>i. a ! i) indices)
      else Inl IndexError)"

definition take_images :: "image_array \<Rightarrow> nat list \<Rightarrow> error + image_array" where
  "take_images a indices =
     (case take_indices (imgs a) indices of
        Inl e \<Rightarrow> Inl e
      | Inr xs \<Rightarrow> Inr \<lparr>trailing = trailing a, imgs = xs\<rparr>)"

subsection \<open>Binary classification labels\<close>

text \<open>
  \<^verbatim>\<open>
  synth_labels = np.clip(synth_labels, 0, 1)
  real_labels = np.clip(real_labels, 0, 1)
  real_final_labels = np.clip(real_final_labels, 0, 1)
  \<close>
  \<^verbatim>\<open>np.clip(a, a_min, a_max)\<close> is NumPy's element-wise
  \<^verbatim>\<open>minimum(a_max, maximum(a, a_min))\<close>.
\<close>

definition clip :: "int \<Rightarrow> int \<Rightarrow> int \<Rightarrow> int" where
  "clip x a_min a_max = min a_max (max x a_min)"

definition np_clip :: "int list \<Rightarrow> int \<Rightarrow> int \<Rightarrow> int list" where
  "np_clip a a_min a_max = map (\<lambda>x. clip x a_min a_max) a"

record loaded =
  synth_images :: image_array
  synth_labels :: "int list"
  real_images :: image_array
  real_labels :: "int list"
  real_final_images :: image_array
  real_final_labels :: "int list"

definition binary_classification :: "loaded \<Rightarrow> loaded" where
  "binary_classification d =
     d\<lparr>synth_labels := np_clip (synth_labels d) 0 1,
       real_labels := np_clip (real_labels d) 0 1,
       real_final_labels := np_clip (real_final_labels d) 0 1\<rparr>"

subsection \<open>Adversarial validation data\<close>

text \<open>
  \<^verbatim>\<open>
  all_images = np.concatenate([synth_images, real_images])
  all_labels = np.concatenate([np.zeros(len(synth_images)), np.ones(len(real_images))]).astype(np.int64)
  \<close>
  \<^verbatim>\<open>np.concatenate\<close> joins along the first axis and raises ValueError when the other
  dimensions differ. \<^verbatim>\<open>np.zeros\<close> and \<^verbatim>\<open>np.ones\<close> make floating-point arrays
  (the values 0.0 and 1.0 are exact, modelled as rationals); \<^verbatim>\<open>astype(np.int64)\<close>
  truncates towards zero.
\<close>

definition concatenate_images :: "image_array \<Rightarrow> image_array \<Rightarrow> error + image_array" where
  "concatenate_images a b =
     (if trailing a = trailing b then Inr \<lparr>trailing = trailing a, imgs = imgs a @ imgs b\<rparr>
      else Inl ValueError)"

definition np_zeros :: "nat \<Rightarrow> rat list" where
  "np_zeros n = replicate n 0"

definition np_ones :: "nat \<Rightarrow> rat list" where
  "np_ones n = replicate n 1"

definition astype_int64 :: "rat list \<Rightarrow> int list" where
  "astype_int64 a = map (\<lambda>x. if 0 \<le> x then \<lfloor>x\<rfloor> else \<lceil>x\<rceil>) a"

definition adversarial_data :: "image_array \<Rightarrow> image_array \<Rightarrow> error + (image_array \<times> int list)" where
  "adversarial_data synth_imgs real_imgs =
     (case concatenate_images synth_imgs real_imgs of
        Inl e \<Rightarrow> Inl e
      | Inr all_images \<Rightarrow>
          Inr (all_images,
               astype_int64 (np_zeros (array_len synth_imgs) @ np_ones (array_len real_imgs))))"

subsection \<open>Filtering bad images\<close>

text \<open>
  \<^verbatim>\<open>
  indices = np.argsort(scores)[-6000:]

  good_synth_images = synth_images[indices]
  good_synth_labels = synth_labels[indices]
  \<close>
  \<^verbatim>\<open>scores\<close> holds one probability per synthetic image, in dataset order; the
  probabilities are modelled as rationals (a linear order: no NaN).
  \<^verbatim>\<open>np.argsort\<close> returns the indices that sort its argument in ascending order. Its
  default sorting algorithm is not stable, so the order among equal scores is not fixed:
  \<open>is_argsort\<close> says what every result satisfies, \<open>np_argsort\<close> is the stable one.
\<close>

definition is_argsort :: "rat list \<Rightarrow> nat list \<Rightarrow> bool" where
  "is_argsort a order \<longleftrightarrow>
     mset order = mset [0..<length a] \<and> sorted (map (\<lambda>i. a ! i) order)"

definition np_argsort :: "rat list \<Rightarrow> nat list" where
  "np_argsort a = sort_key (\<lambda>i. a ! i) [0..<length a]"

definition last_6000 :: "'a list \<Rightarrow> 'a list" where
  \<comment> \<open>The slice \<^verbatim>\<open>[-6000:]\<close>: the whole list when it has fewer than 6000 elements.\<close>
  "last_6000 xs = (if length xs \<le> 6000 then xs else drop (length xs - 6000) xs)"

definition filter_bad_images ::
  "(rat list \<Rightarrow> nat list) \<Rightarrow> rat list \<Rightarrow> image_array \<Rightarrow> int list
     \<Rightarrow> error + (nat list \<times> image_array \<times> int list)" where
  "filter_bad_images argsort scores synth_imgs synth_lbls =
     (let indices = last_6000 (argsort scores) in
      case take_images synth_imgs indices of
        Inl e \<Rightarrow> Inl e
      | Inr good_synth_images \<Rightarrow>
          (case take_indices synth_lbls indices of
             Inl e \<Rightarrow> Inl e
           | Inr good_synth_labels \<Rightarrow> Inr (indices, good_synth_images, good_synth_labels)))"

subsection \<open>Random number generators\<close>

text \<open>
  NumPy's \<^verbatim>\<open>RandomState\<close> and PyTorch's default generator are library code. A
  generator is a value of a state type \<open>'g\<close>; the library gives a way to build a
  generator from an integer seed, and a way to draw a permutation of
  \<^verbatim>\<open>range(n)\<close>, which returns the permutation and the advanced generator. The
  process-wide generator is passed to every operation and returned by it.
\<close>

record 'g rng =
  seed_state :: "int \<Rightarrow> 'g"
  rand_permutation :: "'g \<Rightarrow> nat \<Rightarrow> nat list \<times> 'g"

subsection \<open>Train/test split of the image sets\<close>

text \<open>
  \<^verbatim>\<open>
  synth_train_img, synth_test_img, synth_train_label, synth_test_label = train_test_split(
      synth_images, synth_labels, test_size=0.20, random_state=42,
  )
  real_train_img, real_test_img, real_train_label, real_test_label = train_test_split(
      real_images, real_labels, test_size=0.20, random_state=42,
  )
  \<close>
  scikit-learn's \<^verbatim>\<open>train_test_split\<close> with a fractional \<^verbatim>\<open>test_size\<close> and no
  \<^verbatim>\<open>train_size\<close>: the arrays must have one length; \<^verbatim>\<open>n_test = ceil(test_size * n_samples)\<close>,
  \<^verbatim>\<open>n_train = n_samples - n_test\<close>, ValueError when the train set would be empty; the
  generator is a fresh one built from an integer \<^verbatim>\<open>random_state\<close>, or the process-wide
  one when \<^verbatim>\<open>random_state\<close> is None; the test indices are the first \<^verbatim>\<open>n_test\<close> entries
  of the permutation, the train indices the next \<^verbatim>\<open>n_train\<close>. The fraction is a
  rational here: the double product \<^verbatim>\<open>0.2 * n\<close> has the same ceiling as \<open>n / 5\<close> for
  every array length that fits in memory.
\<close>

definition validate_shuffle_split :: "nat \<Rightarrow> rat \<Rightarrow> error + (nat \<times> nat)" where
  "validate_shuffle_split n_samples test_size =
     (if test_size \<le> 0 \<or> 1 \<le> test_size then Inl ValueError
      else let n_test = nat \<lceil>test_size * of_nat n_samples\<rceil>;
               n_train = n_samples - n_test
           in if n_train = 0 then Inl ValueError else Inr (n_train, n_test))"

definition shuffle_split ::
  "'g rng \<Rightarrow> nat \<Rightarrow> rat \<Rightarrow> int option \<Rightarrow> 'g \<Rightarrow> (error + (nat list \<times> nat list)) \<times> 'g" where
  "shuffle_split lib n_samples test_size random_state g =
     (case validate_shuffle_split n_samples test_size of
        Inl e \<Rightarrow> (Inl e, g)
      | Inr (n_train, n_test) \<Rightarrow>
          (let (permutation, g') =
                 (case random_state of
                    None \<Rightarrow> rand_permutation lib g n_samples
                  | Some seed \<Rightarrow>
                      (fst (rand_permutation lib (seed_state lib seed) n_samples), g));
               ind_test = take n_test permutation;
               ind_train = take n_train (drop n_test permutation)
           in (Inr (ind_train, ind_test), g')))"

definition train_test_split ::
  "'g rng \<Rightarrow> image_array \<Rightarrow> int list \<Rightarrow> rat \<Rightarrow> int option \<Rightarrow> 'g
     \<Rightarrow> (error + (image_array \<times> image_array \<times> int list \<times> int list)) \<times> 'g" where
  "train_test_split lib X y test_size random_state g =
     (if array_len X \<noteq> length y then (Inl ValueError, g)
      else case shuffle_split lib (array_len X) test_size random_state g of
        (Inl e, g') \<Rightarrow> (Inl e, g')
      | (Inr (train, test), g') \<Rightarrow>
          (case take_images X train of Inl e \<Rightarrow> (Inl e, g') | Inr X_train \<Rightarrow>
           case take_images X test of Inl e \<Rightarrow> (Inl e, g') | Inr X_test \<Rightarrow>
           case take_indices y train of Inl e \<Rightarrow> (Inl e, g') | Inr y_train \<Rightarrow>
           case take_indices y test of Inl e \<Rightarrow> (Inl e, g') | Inr y_test \<Rightarrow>
             (Inr (X_train, X_test, y_train, y_test), g')))"


definition split_images ::
  "'g rng \<Rightarrow> image_array \<Rightarrow> int list \<Rightarrow> 'g
     \<Rightarrow> (error + (image_array \<times> image_array \<times> int list \<times> int list)) \<times> 'g" where
  \<comment> \<open>One of the notebook's two calls, on \<^verbatim>\<open>synth_images, synth_labels\<close> or on
      \<^verbatim>\<open>real_images, real_labels\<close>.\<close>
  "split_images lib X y g = train_test_split lib X y (20 / 100) (Some 42) g"

subsection \<open>Train/validation split of the adversarial validation dataset\<close>





definition toy_rng :: "nat rng" where
  \<comment> \<open>A small generator to run the splits on: the state counts the draws, a draw rotates
      \<^verbatim>\<open>range(n)\<close> by the state.\<close>
  "toy_rng = \<lparr>seed_state = (\<lambda>seed. nat \<bar>seed\<bar>),
              rand_permutation =
                (\<lambda>g n. (drop (g mod n) [0..<n] @ take (g mod n) [0..<n], Suc g))\<rparr>"

subsection \<open>Transform pipeline\<close>

text \<open>
  \<^verbatim>\<open>
  transform = transforms.Compose([
      Unsqueeze(axis=-1),
      Repeat(n_channel=3, axis=-1),
      transforms.ToTensor(),
  ])
  \<close>
  An array of shape \<open>(H, W)\<close> is a list of \<open>H\<close> rows of \<open>W\<close> entries, an array of
  shape \<open>(A, B, C)\<close> a list of \<open>A\<close> arrays of shape \<open>(B, C)\<close>.
\<close>

definition has_shape2 :: "'a list list \<Rightarrow> nat \<Rightarrow> nat \<Rightarrow> bool" where
  "has_shape2 a H W \<longleftrightarrow> length a = H \<and> (\<forall>row \<in> set a. length row = W)"

definition has_shape3 :: "'a list list list \<Rightarrow> nat \<Rightarrow> nat \<Rightarrow> nat \<Rightarrow> bool" where
  "has_shape3 a A B C \<longleftrightarrow> length a = A \<and> (\<forall>x \<in> set a. has_shape2 x B C)"

text \<open>
  Modelled from the spec: the class \<^verbatim>\<open>Unsqueeze\<close> of the module \<^verbatim>\<open>dataset\<close>, which the
  notebook imports, is not among the sources. The spec: ``inserting a new trailing axis
  of size 1''.
\<close>

definition Unsqueeze :: "'a list list \<Rightarrow> 'a list list list" where
  \<comment> \<open>Modelled from the spec: \<^verbatim>\<open>Unsqueeze(axis=-1)\<close>, a new trailing axis of size 1.\<close>
  "Unsqueeze img = map (map (\<lambda>p. [p])) img"

text \<open>
  Modelled from the spec: the class \<^verbatim>\<open>Repeat\<close> of the module \<^verbatim>\<open>dataset\<close> is not among
  the sources. The spec: ``replicating along a given axis to reach exactly 3 channels'';
  here along the last axis, every entry \<open>n_channel\<close> times, which turns an axis of
  size 1 into one of size \<open>n_channel\<close>.
\<close>

definition Repeat :: "nat \<Rightarrow> 'a list list list \<Rightarrow> 'a list list list" where
  \<comment> \<open>Modelled from the spec: \<^verbatim>\<open>Repeat(n_channel, axis=-1)\<close>, replication along the last
      axis.\<close>
  "Repeat n_channel img = map (map (\<lambda>px. concat (map (replicate n_channel) px))) img"

text \<open>
  torchvision's \<^verbatim>\<open>ToTensor\<close> on an array of shape \<open>(H, W, C)\<close> of bytes: the axes are
  transposed to \<open>(C, H, W)\<close> and every value is divided by 255. The quotients are
  rationals here. The nested lists cannot hold an array with an axis of size 0.
\<close>

definition ToTensor :: "nat list list list \<Rightarrow> rat list list list" where
  "ToTensor pic =
     (case pic of
        [] \<Rightarrow> []
      | row # _ \<Rightarrow>
          (case row of
             [] \<Rightarrow> []
           | px # _ \<Rightarrow>
               map (\<lambda>c. map (\<lambda>h. map (\<lambda>w. of_nat (pic ! h ! w ! c) / 255)
                                    [0..<length row])
                          [0..<length pic])
                   [0..<length px]))"

definition transform :: "image \<Rightarrow> rat list list list" where
  "transform img = ToTensor (Repeat 3 (Unsqueeze img))"

subsection \<open>Datasets\<close>

text \<open>
  Modelled from the spec: the class \<^verbatim>\<open>MRIDataset\<close> of the module \<^verbatim>\<open>dataset\<close> is not
  among the sources. The spec: ``constructed from an image array and a label array of
  equal length; optionally a transform. \<^verbatim>\<open>length()\<close> returns sample count.
  \<^verbatim>\<open>get(index)\<close> returns \<^verbatim>\<open>(transformed_image, label)\<close>; fails with an
  IndexError-equivalent if index is out of bounds. Transform is applied lazily per
  access''. The constructor stores its arguments and checks nothing; a dataset without
  a transform is one whose transform is the identity. An index is a natural number: the
  spec says nothing of negative indices.
\<close>

record 'a mri_dataset =
  images :: image_array
  labels :: "int list"
  ds_transform :: "image \<Rightarrow> 'a"

definition MRIDataset :: "image_array \<Rightarrow> int list \<Rightarrow> (image \<Rightarrow> 'a) \<Rightarrow> 'a mri_dataset" where
  \<comment> \<open>Modelled from the spec: the constructor of \<^verbatim>\<open>MRIDataset\<close>.\<close>
  "MRIDataset imgs_arg lbls_arg tr = \<lparr>images = imgs_arg, labels = lbls_arg, ds_transform = tr\<rparr>"

definition length_ds :: "'a mri_dataset \<Rightarrow> nat" where
  \<comment> \<open>Modelled from the spec: \<^verbatim>\<open>length()\<close> of \<^verbatim>\<open>MRIDataset\<close>, the number of images.\<close>
  "length_ds ds = array_len (images ds)"

definition get :: "'a mri_dataset \<Rightarrow> nat \<Rightarrow> error + ('a \<times> int)" where
  \<comment> \<open>Modelled from the spec: \<^verbatim>\<open>get(index)\<close> of \<^verbatim>\<open>MRIDataset\<close>; reading either array out
      of range is an IndexError.\<close>
  "get ds index =
     (if index < array_len (images ds) \<and> index < length (labels ds)
      then Inr (ds_transform ds (imgs (images ds) ! index), labels ds ! index)
      else Inl IndexError)"

text \<open>
  \<^verbatim>\<open>
  synth_train_dataset = MRIDataset(images=synth_train_img, labels=synth_train_label, transform=transform)
  synth_test_dataset = MRIDataset(images=synth_test_img, labels=synth_test_label, transform=transform)
  real_train_dataset = MRIDataset(images=real_train_img, labels=real_train_label, transform=transform)
  real_test_dataset = MRIDataset(images=real_test_img, labels=real_test_label, transform=transform)
  real_final_dataset = MRIDataset(images=real_final_images, labels=real_labels, transform=transform)
  \<close>
\<close>

record 'a datasets =
  synth_train_dataset :: "'a mri_dataset"
  synth_test_dataset :: "'a mri_dataset"
  real_train_dataset :: "'a mri_dataset"
  real_test_dataset :: "'a mri_dataset"
  real_final_dataset :: "'a mri_dataset"

definition make_datasets ::
  "(image \<Rightarrow> 'a) \<Rightarrow> image_array \<times> image_array \<times> int list \<times> int list
     \<Rightarrow> image_array \<times> image_array \<times> int list \<times> int list \<Rightarrow> loaded \<Rightarrow> 'a datasets" where
  "make_datasets tr synth_split real_split d =
     (case synth_split of (synth_train_img, synth_test_img, synth_train_label, synth_test_label) \<Rightarrow>
      case real_split of (real_train_img, real_test_img, real_train_label, real_test_label) \<Rightarrow>
        \<lparr>synth_train_dataset = MRIDataset synth_train_img synth_train_label tr,
         synth_test_dataset = MRIDataset synth_test_img synth_test_label tr,
         real_train_dataset = MRIDataset real_train_img real_train_label tr,
         real_test_dataset = MRIDataset real_test_img real_test_label tr,
         real_final_dataset = MRIDataset (real_final_images d) (real_labels d) tr\<rparr>)"

definition notebook_datasets :: "'g rng \<Rightarrow> loaded \<Rightarrow> 'g \<Rightarrow> error + rat list list list datasets" where
  \<comment> \<open>The cells from the binary classification to the datasets, in the notebook's order.\<close>
  "notebook_datasets lib d0 g0 =
     (let d = binary_classification d0 in
      case split_images lib (synth_images d) (synth_labels d) g0 of
        (Inl e, _) \<Rightarrow> Inl e
      | (Inr synth_split, g1) \<Rightarrow>
          (case split_images lib (real_images d) (real_labels d) g1 of
             (Inl e, _) \<Rightarrow> Inl e
           | (Inr real_split, _) \<Rightarrow> Inr (make_datasets transform synth_split real_split d)))"

definition mismatch_example :: loaded where
  \<comment> \<open>Two synthetic images, two real train images, one real hold-out image.\<close>
  "mismatch_example =
     \<lparr>synth_images = \<lparr>trailing = (1, 1), imgs = [[[10]], [[20]]]\<rparr>, synth_labels = [0, 3],
      real_images = \<lparr>trailing = (1, 1), imgs = [[[30]], [[40]]]\<rparr>, real_labels = [0, 2],
      real_final_images = \<lparr>trailing = (1, 1), imgs = [[[50]]]\<rparr>, real_final_labels = [1]\<rparr>"

subsection \<open>Evaluation and metrics\<close>

text \<open>
  PyTorch's \<^verbatim>\<open>DataLoader(dataset, batch_size=b, shuffle=False)\<close>: the samples
  \<^verbatim>\<open>dataset[0], ..., dataset[len(dataset) - 1]\<close> in order, in batches of \<open>b\<close> samples,
  the last one possibly shorter; ValueError when \<open>b\<close> is not positive.
\<close>

fun collect :: "(error + 'a) list \<Rightarrow> error + 'a list" where
  "collect [] = Inr []"
| "collect (r # rs) =
     (case r of
        Inl e \<Rightarrow> Inl e
      | Inr x \<Rightarrow> (case collect rs of Inl e \<Rightarrow> Inl e | Inr xs \<Rightarrow> Inr (x # xs)))"











section \<open>Properties\<close>

subsection \<open>Binarization\<close>

lemma clip_0_1: "clip x 0 1 = (if x \<le> 0 then 0 else 1)"
  by (simp add: clip_def min_def max_def)

text \<open>
  C1. Binarization maps every label \<open>l\<close> of each of the three label arrays to
  \<open>min (max l 0) 1\<close>: a label \<open>\<ge> 1\<close> becomes 1, the label 0 stays 0, and every
  resulting label is 0 or 1.
\<close>

theorem binarize_clamps:
  fixes d :: loaded
  defines "d' \<equiv> binary_classification d"
  shows "length (synth_labels d') = length (synth_labels d)
       \<and> length (real_labels d') = length (real_labels d)
       \<and> length (real_final_labels d') = length (real_final_labels d)
       \<and> (\<forall>sel \<in> {synth_labels, real_labels, real_final_labels}.
            \<forall>i < length (sel d).
              sel d' ! i = min (max (sel d ! i) 0) 1
            \<and> (1 \<le> sel d ! i \<longrightarrow> sel d' ! i = 1)
            \<and> (sel d ! i = 0 \<longrightarrow> sel d' ! i = 0)
            \<and> sel d' ! i \<in> {0, 1})"
  unfolding d'_def binary_classification_def np_clip_def
  by (simp add: clip_0_1 min_def max_def)

subsection \<open>Fancy indexing\<close>

lemma take_indices_ok:
  "\<forall>i \<in> set indices. i < length a \<Longrightarrow> take_indices a indices = Inr (map (\<lambda>i. a ! i) indices)"
  by (simp add: take_indices_def)

lemma take_images_ok:
  "\<forall>i \<in> set indices. i < array_len a \<Longrightarrow>
     take_images a indices = Inr \<lparr>trailing = trailing a, imgs = map (\<lambda>i. imgs a ! i) indices\<rparr>"
  by (simp add: take_images_def take_indices_def array_len_def)

lemma astype_int64_labels:
  "astype_int64 (np_zeros n @ np_ones m) = replicate n 0 @ replicate m 1"
  by (simp add: astype_int64_def np_zeros_def np_ones_def)

text \<open>
  C9. When the two image arrays can be concatenated (same image dimensions), the combined
  image array and the combined label array both have length
  \<open>len(synth_images) + len(real_images)\<close>; sample \<open>i\<close> has label 0 exactly when
  \<open>i < len(synth_images)\<close>, where it is the \<open>i\<close>-th synthetic image, and label 1
  otherwise, where it is a real image.
\<close>

theorem adversarial_labels:
  assumes "trailing s_imgs = trailing r_imgs"
  shows "\<exists>all_images all_labels.
           adversarial_data s_imgs r_imgs = Inr (all_images, all_labels)
         \<and> array_len all_images = array_len s_imgs + array_len r_imgs
         \<and> length all_labels = array_len s_imgs + array_len r_imgs
         \<and> (\<forall>i < array_len s_imgs + array_len r_imgs.
               (all_labels ! i = 0 \<longleftrightarrow> i < array_len s_imgs)
             \<and> (\<not> i < array_len s_imgs \<longrightarrow> all_labels ! i = 1)
             \<and> imgs all_images ! i =
                 (if i < array_len s_imgs then imgs s_imgs ! i
                  else imgs r_imgs ! (i - array_len s_imgs)))"
  using assms
  by (simp add: adversarial_data_def concatenate_images_def astype_int64_labels
      array_len_def nth_append)

lemma adversarial_shape_mismatch:
  "trailing s_imgs \<noteq> trailing r_imgs \<Longrightarrow> adversarial_data s_imgs r_imgs = Inl ValueError"
  by (simp add: adversarial_data_def concatenate_images_def)

lemma is_argsort_np_argsort: "is_argsort a (np_argsort a)"
  by (simp add: is_argsort_def np_argsort_def)

lemma is_argsort_facts:
  assumes "is_argsort a order"
  shows "length order = length a" "distinct order" "set order = {..<length a}"
proof -
  from assms have m: "mset order = mset [0..<length a]" by (simp add: is_argsort_def)
  from m show "length order = length a" by (metis length_upt mset_eq_length minus_nat.diff_0)
  from m show "distinct order" by (metis distinct_upt mset_eq_imp_distinct_iff)
  from m show "set order = {..<length a}" by (metis mset_eq_setD set_upt atLeast0LessThan)
qed

lemma last_6000_drop: "last_6000 xs = drop (length xs - 6000) xs"
  by (simp add: last_6000_def)

lemma length_last_6000: "length (last_6000 xs) = min 6000 (length xs)"
  by (simp add: last_6000_def)

lemma sorted_drop_dominates:
  assumes "sorted (map f order)" "i \<in> set (drop k order)" "j \<in> set order" "j \<notin> set (drop k order)"
  shows "f j \<le> f i"
proof -
  have "order = take k order @ drop k order" by simp
  then have s: "sorted (map f (take k order) @ map f (drop k order))"
    using assms(1) by (metis map_append)
  from assms(3,4) have "j \<in> set (take k order)"
    by (metis Un_iff append_take_drop_id set_append)
  with s assms(2) show ?thesis
    by (auto simp: sorted_append)
qed

text \<open>
  C10. The quality filter keeps the samples at the last (at most) 6000 indices of the
  argsort of the scores: \<open>min 6000 (len synth_images)\<close> samples are kept, the kept images
  and the kept labels are taken at the same, pairwise distinct indices, and every kept
  sample's score is at least every other sample's score. This holds for every result
  that \<^verbatim>\<open>np.argsort\<close> may return (\<open>is_argsort\<close>), whatever it does with ties.
\<close>

theorem filter_keeps_top_scores:
  assumes "is_argsort scores (argsort scores)"
    and "length scores = array_len synth_imgs"
    and "length synth_lbls = array_len synth_imgs"
  shows "\<exists>indices good_images good_labels.
           filter_bad_images argsort scores synth_imgs synth_lbls
             = Inr (indices, good_images, good_labels)
         \<and> array_len good_images = min 6000 (array_len synth_imgs)
         \<and> length good_labels = array_len good_images
         \<and> length indices = array_len good_images
         \<and> distinct indices
         \<and> (\<forall>k < length indices.
               indices ! k < array_len synth_imgs
             \<and> imgs good_images ! k = imgs synth_imgs ! (indices ! k)
             \<and> good_labels ! k = synth_lbls ! (indices ! k))
         \<and> (\<forall>i \<in> set indices. \<forall>j < array_len synth_imgs.
               j \<notin> set indices \<longrightarrow> scores ! j \<le> scores ! i)"
proof -
  define order where "order = argsort scores"
  define indices where "indices = last_6000 order"
  note f = is_argsort_facts[OF assms(1), folded order_def]
  have sub: "set indices \<subseteq> set order"
    by (simp add: indices_def last_6000_drop set_drop_subset)
  have inr: "\<forall>i \<in> set indices. i < array_len synth_imgs"
    using sub f(3) assms(2) by auto
  have inr': "\<forall>i \<in> set indices. i < length synth_lbls"
    using inr assms(3) by simp
  have res: "filter_bad_images argsort scores synth_imgs synth_lbls
      = Inr (indices, \<lparr>trailing = trailing synth_imgs, imgs = map (\<lambda>i. imgs synth_imgs ! i) indices\<rparr>,
             map (\<lambda>i. synth_lbls ! i) indices)"
    unfolding filter_bad_images_def
    using take_images_ok[OF inr] take_indices_ok[OF inr']
    by (simp add: indices_def order_def Let_def)
  have len: "length indices = min 6000 (array_len synth_imgs)"
    by (simp add: indices_def length_last_6000 f(1) assms(2))
  have dist: "distinct indices"
    using f(2) by (simp add: indices_def last_6000_drop)
  have dom: "\<forall>i \<in> set indices. \<forall>j < array_len synth_imgs.
               j \<notin> set indices \<longrightarrow> scores ! j \<le> scores ! i"
  proof (intro ballI allI impI)
    fix i j assume i: "i \<in> set indices" and j: "j < array_len synth_imgs" and nj: "j \<notin> set indices"
    from j have "j \<in> set order" using f(3) assms(2) by simp
    moreover have "sorted (map (\<lambda>i. scores ! i) order)"
      using assms(1) by (simp add: is_argsort_def order_def)
    ultimately show "scores ! j \<le> scores ! i"
      using i nj sorted_drop_dominates[of "\<lambda>i. scores ! i" order i "length order - 6000" j]
      by (simp add: indices_def last_6000_drop)
  qed
  have nth: "\<forall>k < length indices. indices ! k < array_len synth_imgs" 
    using inr by simp
  show ?thesis
    using res len dist dom nth by (simp add: array_len_def)
qed


theorem binarize_clamps_witness:
  "(2::nat) < length [0, 1, 2, 3::int] \<and> (1::int) \<le> [0, 1, 2, 3] ! 2
   \<and> synth_labels (binary_classification
         \<lparr>synth_images = \<lparr>trailing = (1, 1), imgs = []\<rparr>, synth_labels = [0, 1, 2, 3],
          real_images = \<lparr>trailing = (1, 1), imgs = []\<rparr>, real_labels = [],
          real_final_images = \<lparr>trailing = (1, 1), imgs = []\<rparr>, real_final_labels = []\<rparr>) ! 2 = 1"
  using binarize_clamps [of
         "\<lparr>synth_images = \<lparr>trailing = (1, 1), imgs = []\<rparr>, synth_labels = [0, 1, 2, 3],
          real_images = \<lparr>trailing = (1, 1), imgs = []\<rparr>, real_labels = [],
          real_final_images = \<lparr>trailing = (1, 1), imgs = []\<rparr>, real_final_labels = []\<rparr>"]
  by simp

theorem adversarial_labels_witness:
  "trailing \<lparr>trailing = (1, 2), imgs = [[[7, 8]], [[9, 10]]]\<rparr>
     = trailing \<lparr>trailing = (1, 2), imgs = [[[1, 2]]]\<rparr>
   \<and> adversarial_data \<lparr>trailing = (1, 2), imgs = [[[7, 8]], [[9, 10]]]\<rparr>
                       \<lparr>trailing = (1, 2), imgs = [[[1, 2]]]\<rparr>
       = Inr (\<lparr>trailing = (1, 2), imgs = [[[7, 8]], [[9, 10]], [[1, 2]]]\<rparr>, [0, 0, 1])"
proof -
  have h: "trailing \<lparr>trailing = (1, 2), imgs = [[[7, 8]], [[9, 10::nat]]]\<rparr>
     = trailing \<lparr>trailing = (1, 2), imgs = [[[1, 2::nat]]]\<rparr>" by simp
  from adversarial_labels [OF h] obtain all_images all_labels where
    r: "adversarial_data \<lparr>trailing = (1, 2), imgs = [[[7, 8]], [[9, 10]]]\<rparr>
                       \<lparr>trailing = (1, 2), imgs = [[[1, 2]]]\<rparr> = Inr (all_images, all_labels)"
    by blast
  then show ?thesis
    by (simp add: adversarial_data_def concatenate_images_def astype_int64_labels array_len_def)
qed

lemma sorted_rat_of_nat_upt: "sorted (map (\<lambda>i. map rat_of_nat [0..<n] ! i) [0..<n])"
proof -
  have "map (\<lambda>i. map rat_of_nat [0..<n] ! i) [0..<length (map rat_of_nat [0..<n])]
          = map rat_of_nat [0..<n]"
    by (rule map_nth)
  then have e: "map (\<lambda>i. map rat_of_nat [0..<n] ! i) [0..<n] = map rat_of_nat [0..<n]"
    by simp
  have "sorted (map rat_of_nat [0..<n])"
    by (simp add: sorted_map sorted_wrt_iff_nth_less)
  then show ?thesis
    by (simp only: e)
qed

theorem filter_keeps_top_scores_witness:
  "is_argsort (map rat_of_nat [0..<6001]) ((\<lambda>_. [0..<6001]) (map rat_of_nat [0..<6001]))
   \<and> length (map rat_of_nat [0..<6001]) = array_len \<lparr>trailing = (1, 1), imgs = replicate 6001 [[0]]\<rparr>
   \<and> length (replicate 6001 (0::int)) = array_len \<lparr>trailing = (1, 1), imgs = replicate 6001 [[0]]\<rparr>
   \<and> fst (projr (filter_bad_images (\<lambda>_. [0..<6001]) (map rat_of_nat [0..<6001])
         \<lparr>trailing = (1, 1), imgs = replicate 6001 [[0]]\<rparr> (replicate 6001 0))) = [1..<6001]
   \<and> map rat_of_nat [0..<6001] ! 0 \<le> map rat_of_nat [0..<6001] ! 1"
proof -
  let ?scores = "map rat_of_nat [0..<6001]"
  let ?imgs = "\<lparr>trailing = (1, 1), imgs = replicate 6001 [[0::nat]]\<rparr>"
  let ?lbls = "replicate 6001 (0::int)"
  have a: "is_argsort ?scores ((\<lambda>_. [0..<6001]) ?scores)"
    using sorted_rat_of_nat_upt [of 6001] by (simp add: is_argsort_def)
  have b: "length ?scores = array_len ?imgs" by (simp add: array_len_def)
  have c: "length ?lbls = array_len ?imgs" by (simp add: array_len_def)
  from filter_keeps_top_scores [OF a b c] obtain indices good_images good_labels where
    r: "filter_bad_images (\<lambda>_. [0..<6001]) ?scores ?imgs ?lbls = Inr (indices, good_images, good_labels)"
    and d: "\<forall>i \<in> set indices. \<forall>j < array_len ?imgs. j \<notin> set indices \<longrightarrow> ?scores ! j \<le> ?scores ! i"
    by blast
  have i: "indices = [1..<6001]"
    using r by (auto simp: filter_bad_images_def last_6000_def Let_def drop_upt split: sum.splits)
  have "1 \<in> set indices" "0 \<notin> set indices" by (simp_all add: i)
  with d b have "?scores ! 0 \<le> ?scores ! 1" by (metis length_map length_upt zero_less_numeral diff_zero)
  with a b c r i show ?thesis by simp
qed

subsection \<open>Splits\<close>























subsection \<open>Transform pipeline\<close>

lemma Repeat_Unsqueeze: "Repeat 3 (Unsqueeze img) = map (map (\<lambda>p. [p, p, p])) img"
  by (simp add: Repeat_def Unsqueeze_def numeral_3_eq_3)

lemma has_shape3_Unsqueeze: "has_shape2 img H W \<Longrightarrow> has_shape3 (Unsqueeze img) H W 1"
  by (auto simp: has_shape2_def has_shape3_def Unsqueeze_def)

lemma has_shape3_Repeat:
  "has_shape3 a H W C \<Longrightarrow> has_shape3 (Repeat n a) H W (C * n)"
proof -
  have l: "length (concat (map (replicate n) px)) = length px * n" for px :: "'a list"
    by (induction px) simp_all
  show "has_shape3 a H W C \<Longrightarrow> has_shape3 (Repeat n a) H W (C * n)"
    by (auto simp: has_shape2_def has_shape3_def Repeat_def l)
qed

lemma ToTensor_nonempty:
  assumes "has_shape3 pic H W C" "0 < H" "0 < W"
  shows "ToTensor pic =
           map (\<lambda>c. map (\<lambda>h. map (\<lambda>w. of_nat (pic ! h ! w ! c) / 255) [0..<W]) [0..<H]) [0..<C]"
proof -
  from assms obtain row rest where pic: "pic = row # rest"
    by (cases pic) (auto simp: has_shape3_def)
  with assms have lr: "length row = W" and all: "\<forall>px \<in> set row. length px = C"
    by (auto simp: has_shape3_def has_shape2_def)
  with assms obtain px pxs where row: "row = px # pxs"
    by (cases row) auto
  with all have "length px = C" by simp
  with pic row lr assms(1) show ?thesis
    by (simp add: ToTensor_def has_shape3_def)
qed

text \<open>
  C2. For an image of shape \<open>(H, W)\<close> with \<open>H > 0\<close> and \<open>W > 0\<close>, the pipeline applied
  in the order unsqueeze, repeat, to-tensor gives arrays of shape \<open>(H, W, 1)\<close>, then
  \<open>(H, W, 3)\<close>, then exactly \<open>(3, H, W)\<close>; each of the three channels holds the pixels
  of the image divided by 255.
\<close>

theorem transform_shape:
  assumes "has_shape2 img H W" and "0 < H" and "0 < W"
  shows "has_shape3 (Unsqueeze img) H W 1
       \<and> has_shape3 (Repeat 3 (Unsqueeze img)) H W 3
       \<and> has_shape3 (transform img) 3 H W
       \<and> (\<forall>c < 3. \<forall>h < H. \<forall>w < W. transform img ! c ! h ! w = of_nat (img ! h ! w) / 255)"
proof -
  have u: "has_shape3 (Unsqueeze img) H W 1"
    using assms(1) by (rule has_shape3_Unsqueeze)
  from has_shape3_Repeat [OF u, of 3] have r: "has_shape3 (Repeat 3 (Unsqueeze img)) H W 3"
    by simp
  note t = ToTensor_nonempty [OF r assms(2,3), folded transform_def]
  have s: "has_shape3 (transform img) 3 H W"
    by (simp add: t has_shape3_def has_shape2_def)
  have v: "transform img ! c ! h ! w = of_nat (img ! h ! w) / 255"
    if "c < 3" "h < H" "w < W" for c h w
  proof -
    from assms(1) that(2) have "length (img ! h) = W" "h < length img"
      by (auto simp: has_shape2_def)
    with that have e: "Repeat 3 (Unsqueeze img) ! h ! w = [img ! h ! w, img ! h ! w, img ! h ! w]"
      by (simp add: Repeat_Unsqueeze)
    from that(1) have "c = 0 \<or> c = 1 \<or> c = 2" by linarith
    then have "[img ! h ! w, img ! h ! w, img ! h ! w] ! c = img ! h ! w"
      by auto
    with that show ?thesis by (simp add: t e)
  qed
  from u r s v show ?thesis by blast
qed

theorem transform_shape_witness:
  "has_shape2 [[0, 255], [51, 102], [5, 10::nat]] 3 2 \<and> (0::nat) < 3 \<and> (0::nat) < 2
   \<and> has_shape3 (transform [[0, 255], [51, 102], [5, 10]]) 3 3 2
   \<and> transform [[0, 255], [51, 102], [5, 10]] ! 2 ! 1 ! 0 = 1 / 5"
proof -
  have a: "has_shape2 [[0, 255], [51, 102], [5, 10::nat]] 3 2" by (simp add: has_shape2_def)
  have b: "(0::nat) < 3" and c: "(0::nat) < 2" by simp_all
  note t = transform_shape [OF a b c]
  from t have s: "has_shape3 (transform [[0, 255], [51, 102], [5, 10]]) 3 3 2"
    by (elim conjE)
  from t have q: "\<forall>c < 3. \<forall>h < 3. \<forall>w < 2. transform [[0, 255], [51, 102], [5, 10]] ! c ! h ! w
           = of_nat ([[0, 255], [51, 102], [5, 10]] ! h ! w) / 255"
    by (elim conjE)
  have "transform [[0, 255], [51, 102], [5, 10]] ! 2 ! 1 ! 0
          = of_nat ([[0, 255], [51, 102], [5, 10]] ! 1 ! 0) / 255"
    by (rule q [rule_format]) simp_all
  also have "\<dots> = 1 / 5" by simp
  finally show ?thesis using a s by simp
qed

subsection \<open>Datasets\<close>



text \<open>
  The hold-out dataset pairs the hold-out images with the labels of the real train set,
  whatever their lengths.
\<close>

lemma real_final_dataset_labels:
  assumes "notebook_datasets lib d g = Inr ds"
  shows "images (real_final_dataset ds) = real_final_images d"
    and "labels (real_final_dataset ds) = np_clip (real_labels d) 0 1"
  using assms
  by (auto simp: notebook_datasets_def make_datasets_def MRIDataset_def binary_classification_def
      Let_def split: prod.splits sum.splits)

text \<open>
  C4. Every dataset should pair an image array with a label array of the same length.
  On a load with two real train images and one hold-out image, the notebook's
  \<open>real_final_dataset\<close> has one image and two labels, and its sample 0 carries the
  label 0 of the first real train image, while the hold-out label is 1.
\<close>

theorem real_final_dataset_mismatch:
  "(case notebook_datasets toy_rng mismatch_example 0 of
      Inl e \<Rightarrow> False
    | Inr ds \<Rightarrow>
        length_ds (real_final_dataset ds) = 1
      \<and> length (labels (real_final_dataset ds)) = 2
      \<and> labels (real_final_dataset ds) = real_labels (binary_classification mismatch_example)
      \<and> map snd (projr (collect (map (get (real_final_dataset ds)) [0..<1]))) = [0]
      \<and> real_final_labels (binary_classification mismatch_example) = [1])"
  by code_simp

subsection \<open>Evaluation and metrics\<close>










end
